theory Spec2Isabelle
  imports Complex_Main
begin

section \<open>Numbers and vectors\<close>

text \<open>
  The program is \<^verbatim>\<open>src/App.tsx\<close>: a particle scene whose layout is driven by a mode
  (TREE, SCATTER, FOCUS) and by hand gestures. JavaScript numbers are modelled as exact
  reals: rounding of IEEE doubles is not part of the model, so every numeric statement
  below is about the arithmetic the code writes down, not about its last bits.

  \<open>Vector3\<close> stands for \<^verbatim>\<open>THREE.Vector3\<close> and, for a rotation, for the three angles of
  \<^verbatim>\<open>THREE.Euler\<close>. The methods of three.js that the code calls are written out from their
  library definitions: \<^verbatim>\<open>a.lerp(v, alpha)\<close> adds \<open>(v - a) * alpha\<close> to every component of
  \<open>a\<close>, \<^verbatim>\<open>multiplyScalar\<close> scales every component, \<^verbatim>\<open>MathUtils.lerp(x, y, t)\<close> is
  \<open>(1 - t) * x + t * y\<close>, and \<^verbatim>\<open>Math.hypot(a, b)\<close> is \<open>sqrt (a\<^sup>2 + b\<^sup>2)\<close>.
\<close>

datatype Vector3 = Vector3 (vx: real) (vy: real) (vz: real)

definition lerp :: "Vector3 \<Rightarrow> Vector3 \<Rightarrow> real \<Rightarrow> Vector3" where
  "lerp a v alpha =
     Vector3 (vx a + (vx v - vx a) * alpha)
             (vy a + (vy v - vy a) * alpha)
             (vz a + (vz v - vz a) * alpha)"

definition multiplyScalar :: "Vector3 \<Rightarrow> real \<Rightarrow> Vector3" where
  "multiplyScalar a k = Vector3 (vx a * k) (vy a * k) (vz a * k)"

definition MathUtils_lerp :: "real \<Rightarrow> real \<Rightarrow> real \<Rightarrow> real" where
  "MathUtils_lerp x y t = (1 - t) * x + t * y"

definition hypot :: "real \<Rightarrow> real \<Rightarrow> real" where
  "hypot a b = sqrt (a\<^sup>2 + b\<^sup>2)"

text \<open>Euclidean distance between two points, and the length of a vector.\<close>

definition distanceTo :: "Vector3 \<Rightarrow> Vector3 \<Rightarrow> real" where
  "distanceTo a b = sqrt ((vx a - vx b)\<^sup>2 + (vy a - vy b)\<^sup>2 + (vz a - vz b)\<^sup>2)"

definition vlength :: "Vector3 \<Rightarrow> real" where
  "vlength a = sqrt ((vx a)\<^sup>2 + (vy a)\<^sup>2 + (vz a)\<^sup>2)"

text \<open>
  The distance of a point from the vertical axis: the radius of the ring on which the
  FOCUS layout puts the particles it sends away.
\<close>

definition radial :: "Vector3 \<Rightarrow> real" where
  "radial a = sqrt ((vx a)\<^sup>2 + (vz a)\<^sup>2)"

section \<open>The source of randomness\<close>

text \<open>
  \<^verbatim>\<open>Math.random()\<close> returns a number that is at least 0 and less than 1. The type
  \<open>unit_interval\<close> holds exactly these numbers; a generator is the sequence of the
  values that the coming calls will return, and a call takes the first and leaves the rest.
\<close>

typedef unit_interval = "{r::real. 0 \<le> r \<and> r < 1}"
  by (rule exI [of _ 0]) simp

setup_lifting type_definition_unit_interval

lift_definition rnd_zero :: unit_interval is "0"
  by simp

lift_definition rnd_half :: unit_interval is "1 / 2"
  by simp

type_synonym rng = "nat \<Rightarrow> unit_interval"

definition Math_random :: "rng \<Rightarrow> real \<times> rng" where
  "Math_random g = (Rep_unit_interval (g 0), \<lambda>n. g (Suc n))"

section \<open>Particles\<close>

datatype ExperienceMode = TREE | SCATTER | FOCUS

datatype ParticleType = BOX | SPHERE | CANDY | PHOTO

text \<open>
  Class \<^verbatim>\<open>Particle\<close>. The three fields \<open>mesh_position\<close>, \<open>mesh_rotation\<close> and \<open>mesh_scale\<close>
  are the transform of \<^verbatim>\<open>this.mesh\<close>; \<open>ptype\<close> is the field \<^verbatim>\<open>type\<close> and \<open>pid\<close> the
  field \<^verbatim>\<open>id\<close>.
\<close>

record Particle =
  mesh_position :: Vector3
  mesh_rotation :: Vector3
  mesh_scale :: Vector3
  ptype :: ParticleType
  targetPos :: Vector3
  randomVelocity :: Vector3
  initialScale :: Vector3
  pid :: string

text \<open>
  The constructor with its field initialisers. The three coordinates of
  \<open>randomVelocity\<close> are drawn first, the identifier last. The identifier is
  \<^verbatim>\<open>Math.random().toString(36).substring(7)\<close>: the base-36 rendering of a number is a
  built-in of the language, so the model takes the resulting string as the parameter
  \<open>newId\<close> and only consumes the draw. Nothing in the code constrains that string: it is
  empty when the rendering has at most seven characters (\<^verbatim>\<open>(0.5).toString(36)\<close> is
  \<^verbatim>\<open>"0.i"\<close>), and two particles may receive the same one.
\<close>

definition new_Particle ::
  "Vector3 \<Rightarrow> Vector3 \<Rightarrow> Vector3 \<Rightarrow> ParticleType \<Rightarrow> string \<Rightarrow> rng \<Rightarrow> Particle \<times> rng" where
  "new_Particle pos rot scl ty newId g =
     (let (u1, g1) = Math_random g;
          (u2, g2) = Math_random g1;
          (u3, g3) = Math_random g2;
          (u4, g4) = Math_random g3
      in (\<lparr> mesh_position = pos, mesh_rotation = rot, mesh_scale = scl, ptype = ty,
            targetPos = Vector3 0 0 0,
            randomVelocity =
              Vector3 ((u1 - 0.5) * 0.04) ((u2 - 0.5) * 0.04) ((u3 - 0.5) * 0.04),
            initialScale = scl, pid = newId \<rparr>, g4))"

text \<open>Method \<^verbatim>\<open>Particle.update(mode, focusTargetId)\<close>.\<close>

definition Particle_update :: "ExperienceMode \<Rightarrow> string option \<Rightarrow> Particle \<Rightarrow> Particle" where
  "Particle_update m focusId p =
     (let isFocusTarget = (focusId = Some (pid p));
          p1 = p\<lparr> mesh_position := lerp (mesh_position p) (targetPos p) 0.08 \<rparr>;
          p2 = (if m = FOCUS then
                  (if ptype p1 = PHOTO then
                     (if isFocusTarget then
                        (let focusScale = multiplyScalar (initialScale p1) 4.5;
                             r = mesh_rotation p1
                         in p1\<lparr> mesh_scale := lerp (mesh_scale p1) focusScale 0.1,
                                mesh_rotation :=
                                  Vector3 (vx r) (MathUtils_lerp (vy r) 0 0.1) (vz r) \<rparr>)
                      else p1\<lparr> mesh_scale :=
                                  lerp (mesh_scale p1) (Vector3 0.001 0.001 0.001) 0.1 \<rparr>)
                   else p1\<lparr> mesh_scale :=
                               lerp (mesh_scale p1) (Vector3 0.001 0.001 0.001) 0.1 \<rparr>)
                else p1\<lparr> mesh_scale := lerp (mesh_scale p1) (initialScale p1) 0.1 \<rparr>);
          r2 = mesh_rotation p2;
          v = randomVelocity p2
      in (if m = SCATTER then
            p2\<lparr> mesh_rotation := Vector3 (vx r2 + vx v) (vy r2 + vy v) (vz r2 + vz v) \<rparr>
          else
            p2\<lparr> mesh_rotation := Vector3 (vx r2 * 0.92) (vy r2) (vz r2 * 0.92) \<rparr>))"

text \<open>
  A run of consecutive calls of \<^verbatim>\<open>update\<close> on one particle, each with the mode and the
  focus identifier of its frame.
\<close>

definition updates :: "(ExperienceMode \<times> string option) list \<Rightarrow> Particle \<Rightarrow> Particle" where
  "updates calls p = foldl (\<lambda>q (m, f). Particle_update m f q) p calls"

section \<open>The scene and its layout\<close>

text \<open>
  Interface \<^verbatim>\<open>State\<close> and the fields of class \<^verbatim>\<open>Experience\<close> that the layout and the
  gesture code read or write. The renderer, the camera, the lights and the dust cloud
  take no part in them and are left out.
\<close>

record State =
  mode :: ExperienceMode
  handX :: real
  handY :: real
  pinchDetected :: bool
  fistDetected :: bool
  openHandDetected :: bool
  controlsVisible :: bool

record Experience =
  particles :: "Particle list"
  lastVideoTime :: real
  state :: State
  focusTargetId :: "string option"

text \<open>The field initialisers of \<^verbatim>\<open>Experience\<close>.\<close>

definition initial :: Experience where
  "initial =
     \<lparr> particles = [], lastVideoTime = - 1,
       state = \<lparr> mode = TREE, handX = 0, handY = 0, pinchDetected = False,
                 fistDetected = False, openHandDetected = False, controlsVisible = True \<rparr>,
       focusTargetId = None \<rparr>"

text \<open>
  The test \<^verbatim>\<open>!this.focusTargetId\<close> on a value of type \<^verbatim>\<open>string | null\<close>: it holds for
  \<^verbatim>\<open>null\<close> and also for the empty string.
\<close>

definition falsy :: "string option \<Rightarrow> bool" where
  "falsy v = (case v of None \<Rightarrow> True | Some s \<Rightarrow> s = [])"

definition maxRadius :: real where
  "maxRadius = 14"

definition height :: real where
  "height = 28"

text \<open>
  The body of the callback of \<^verbatim>\<open>this.particles.forEach((p, i) => ...)\<close> in
  \<^verbatim>\<open>calculateTargets\<close>: \<open>n\<close> is \<^verbatim>\<open>this.particles.length\<close>, \<open>fid\<close> the focus identifier
  after the selection. The arguments of \<^verbatim>\<open>targetPos.set\<close> are evaluated from left to
  right, which fixes the order of the draws.
\<close>

definition setTarget ::
  "ExperienceMode \<Rightarrow> string option \<Rightarrow> nat \<Rightarrow> nat \<Rightarrow> Particle \<Rightarrow> rng \<Rightarrow> Particle \<times> rng" where
  "setTarget m fid n i p g =
     (if m = TREE then
        (let t = real i / real n;
             radius = maxRadius * (1 - t);
             angle = t * 50 * pi
         in (p\<lparr> targetPos :=
                  Vector3 (cos angle * radius) (t * height - height / 2) (sin angle * radius) \<rparr>,
             g))
      else if m = SCATTER then
        (let (u1, g1) = Math_random g;
             theta = u1 * pi * 2;
             (u2, g2) = Math_random g1;
             phi = arccos (2 * u2 - 1);
             (u3, g3) = Math_random g2;
             r = 10 + u3 * 15
         in (p\<lparr> targetPos :=
                  Vector3 (r * sin phi * cos theta) (r * sin phi * sin theta) (r * cos phi) \<rparr>,
             g3))
      else if m = FOCUS then
        (if Some (pid p) = fid then (p\<lparr> targetPos := Vector3 0 2 35 \<rparr>, g)
         else
           (let (u1, g1) = Math_random g;
                angle = u1 * pi * 2;
                (u2, g2) = Math_random g1;
                r = 40 + u2 * 20;
                (u3, g3) = Math_random g2
            in (p\<lparr> targetPos := Vector3 (cos angle * r) ((u3 - 0.5) * 40) (sin angle * r) \<rparr>,
                g3)))
      else (p, g))"

text \<open>The loop of \<^verbatim>\<open>forEach\<close>: the particles in order, the index counted up.\<close>

fun forEach ::
  "ExperienceMode \<Rightarrow> string option \<Rightarrow> nat \<Rightarrow> nat \<Rightarrow> Particle list \<Rightarrow> rng
     \<Rightarrow> Particle list \<times> rng" where
  "forEach m fid n i [] g = ([], g)"
| "forEach m fid n i (p # ps) g =
     (let (p', g1) = setTarget m fid n i p g;
          (ps', g2) = forEach m fid n (Suc i) ps g1
      in (p' # ps', g2))"

text \<open>
  The selection at the head of \<^verbatim>\<open>calculateTargets\<close>: the focus identifier after it, and
  the generator. \<^verbatim>\<open>Math.floor(Math.random() * photos.length)\<close> is below
  \<^verbatim>\<open>photos.length\<close> because the draw is below 1.
\<close>

definition selectFocus :: "ExperienceMode \<Rightarrow> string option \<Rightarrow> Particle list \<Rightarrow> rng
     \<Rightarrow> string option \<times> rng" where
  "selectFocus m cur ps g =
     (let photos = filter (\<lambda>p. ptype p = PHOTO) ps
      in if m = FOCUS then
           (if falsy cur \<and> length photos > 0 then
              (let (u, g1) = Math_random g
               in (Some (pid (photos ! nat \<lfloor>u * real (length photos)\<rfloor>)), g1))
            else (cur, g))
         else (None, g))"

text \<open>Method \<^verbatim>\<open>calculateTargets\<close>.\<close>

definition calculateTargets :: "Experience \<Rightarrow> rng \<Rightarrow> Experience \<times> rng" where
  "calculateTargets e g =
     (let m = mode (state e);
          (fid, g1) = selectFocus m (focusTargetId e) (particles e) g;
          (ps, g2) = forEach m fid (length (particles e)) 0 (particles e) g1
      in (e\<lparr> focusTargetId := fid, particles := ps \<rparr>, g2))"

text \<open>
  Method \<^verbatim>\<open>addPhotoToScene\<close>: the new particle wraps a fresh \<^verbatim>\<open>THREE.Group\<close>, whose
  position and rotation are zero and whose scale is one.
\<close>

definition addPhotoToScene :: "string \<Rightarrow> Experience \<Rightarrow> rng \<Rightarrow> Experience \<times> rng" where
  "addPhotoToScene newId e g =
     (let (p, g1) = new_Particle (Vector3 0 0 0) (Vector3 0 0 0) (Vector3 1 1 1) PHOTO newId g
      in calculateTargets (e\<lparr> particles := particles e @ [p] \<rparr>) g1)"

text \<open>
  One round of the loop of \<^verbatim>\<open>initContent\<close> that creates the decorations: a mesh at a
  position chosen by the caller, of a type other than PHOTO, pushed on the list.
\<close>

definition addDecoration ::
  "Vector3 \<Rightarrow> ParticleType \<Rightarrow> string \<Rightarrow> Experience \<Rightarrow> rng \<Rightarrow> Experience \<times> rng" where
  "addDecoration pos ty newId e g =
     (let (p, g1) = new_Particle pos (Vector3 0 0 0) (Vector3 1 1 1) ty newId g
      in (e\<lparr> particles := particles e @ [p] \<rparr>, g1))"

section \<open>Gestures\<close>

text \<open>
  What one call of \<^verbatim>\<open>processGestures\<close> finds outside the object: whether the hand
  landmarker and the video element exist, the video's \<^verbatim>\<open>readyState\<close> and
  \<^verbatim>\<open>currentTime\<close>, and the field \<^verbatim>\<open>landmarks\<close> of the detection result (one list of
  landmarks for each hand; \<open>None\<close> when the field is absent). Of a landmark only \<open>x\<close> and
  \<open>y\<close> are read.
\<close>

record Landmark =
  lx :: real
  ly :: real

record GestureInput =
  handLandmarker :: bool
  video :: bool
  readyState :: nat
  currentTime :: real
  landmarks :: "Landmark list list option"



text \<open>
  A call either returns or throws; both leave the object in the state reached so far.
  \<open>Threw\<close> is the \<^verbatim>\<open>TypeError\<close> of reading \<^verbatim>\<open>x\<close> of \<^verbatim>\<open>undefined\<close>, which is what
  \<^verbatim>\<open>lms[k]\<close> is beyond the end of the array.
\<close>

datatype 'a outcome = Returned 'a | Threw 'a

fun outcome_value :: "'a outcome \<Rightarrow> 'a" where
  "outcome_value (Returned a) = a"
| "outcome_value (Threw a) = a"

definition pinchDist :: "Landmark list \<Rightarrow> real" where
  "pinchDist lms =
     (let thumb = lms ! 4; index = lms ! 8
      in hypot (lx thumb - lx index) (ly thumb - ly index))"

definition avgTipDist :: "Landmark list \<Rightarrow> real" where
  "avgTipDist lms =
     (let index = lms ! 8; wrist = lms ! 0;
          tips = [lms ! 12, lms ! 16, lms ! 20, index]
      in foldl (\<lambda>acc t. acc + hypot (lx t - lx wrist) (ly t - ly wrist)) 0 tips / 4)"

text \<open>Lines 460 to 463: the mode that the gesture asks for.\<close>

definition newMode :: "ExperienceMode \<Rightarrow> real \<Rightarrow> real \<Rightarrow> ExperienceMode" where
  "newMode cur pinch avg =
     (if pinch < 0.05 then FOCUS
      else if avg < 0.25 then TREE
      else if avg > 0.4 then SCATTER
      else cur)"

text \<open>Lines 465 to 468: the mode is committed, and the layout recomputed, only on a change.\<close>

definition commitMode :: "ExperienceMode \<Rightarrow> Experience \<Rightarrow> rng \<Rightarrow> Experience \<times> rng" where
  "commitMode nm e g =
     (if nm \<noteq> mode (state e) then calculateTargets (e\<lparr> state := (state e)\<lparr> mode := nm \<rparr> \<rparr>) g
      else (e, g))"

text \<open>
  Method \<^verbatim>\<open>processGestures\<close>. The first read of a landmark is \<^verbatim>\<open>center.x\<close> with
  \<^verbatim>\<open>center = lms[9]\<close>, which throws on an array of at most nine landmarks, before the
  pointer is written; on a longer array the thumb, the index finger and the wrist exist,
  and the next read that can throw is that of the finger tips 12, 16 and 20 inside
  \<^verbatim>\<open>reduce\<close>, after the pointer has been written.
\<close>

definition processGestures :: "GestureInput \<Rightarrow> Experience \<Rightarrow> rng \<Rightarrow> (Experience \<times> rng) outcome" where
  "processGestures inp e g =
     (if \<not> handLandmarker inp \<or> \<not> video inp \<or> readyState inp < 2 then Returned (e, g)
      else if currentTime inp \<noteq> lastVideoTime e then
        (let e1 = e\<lparr> lastVideoTime := currentTime inp \<rparr>
         in case landmarks inp of
              None \<Rightarrow> Returned (e1, g)
            | Some hands \<Rightarrow>
                if length hands > 0 then
                  (let lms = hands ! 0
                   in if length lms \<le> 9 then Threw (e1, g)
                      else
                        (let center = lms ! 9;
                             e2 = e1\<lparr> state := (state e1)\<lparr> handX := (lx center - 0.5) * 2,
                                                          handY := (ly center - 0.5) * 2 \<rparr> \<rparr>
                         in if length lms \<le> 20 then Threw (e2, g)
                            else
                              Returned
                                (commitMode
                                   (newMode (mode (state e2)) (pinchDist lms) (avgTipDist lms))
                                   e2 g)))
                else Returned (e1, g))
      else Returned (e, g))"

text \<open>
  One frame of \<^verbatim>\<open>animate\<close>: the gestures, then \<^verbatim>\<open>update\<close> on every particle. An
  exception of \<^verbatim>\<open>processGestures\<close> ends the frame there. The rotation of the whole
  group, the dust and the rendering are left out.
\<close>

definition animate :: "GestureInput \<Rightarrow> Experience \<Rightarrow> rng \<Rightarrow> (Experience \<times> rng) outcome" where
  "animate inp e g =
     (case processGestures inp e g of
        Threw r \<Rightarrow> Threw r
      | Returned (e1, g1) \<Rightarrow>
          Returned
            (e1\<lparr> particles :=
                   map (Particle_update (mode (state e1)) (focusTargetId e1)) (particles e1) \<rparr>,
             g1))"

text \<open>
  The states that the object can be in: its initial fields, and whatever the constructor
  (decorations, photos, the layout) and the frames make of them.
\<close>

inductive reachable :: "Experience \<Rightarrow> bool" where
  r_initial: "reachable initial"
| r_decoration:
    "reachable e \<Longrightarrow> ty \<noteq> PHOTO \<Longrightarrow> reachable (fst (addDecoration pos ty newId e g))"
| r_photo: "reachable e \<Longrightarrow> reachable (fst (addPhotoToScene newId e g))"
| r_layout: "reachable e \<Longrightarrow> reachable (fst (calculateTargets e g))"
| r_frame: "reachable e \<Longrightarrow> reachable (fst (outcome_value (animate inp e g)))"

section \<open>Formulas of the specification and example scenes\<close>

text \<open>
  The TREE layout in the words of the specification: with \<open>t = i / N\<close>, the radius is
  \<open>14 * (1 - t)\<close>, the angle \<open>t * 50 * pi\<close> and the height \<open>t * 28 - 14\<close>, and the
  position is \<open>(radius * cos angle, height, radius * sin angle)\<close>. It is compared below
  with what \<open>setTarget\<close> computes.
\<close>

definition treeTarget :: "nat \<Rightarrow> nat \<Rightarrow> Vector3" where
  "treeTarget N i =
     (let t = real i / real N; radius = 14 * (1 - t); angle = t * (50 * pi)
      in Vector3 (radius * cos angle) (t * 28 - 14) (radius * sin angle))"

text \<open>Concrete scenes on which the theorems below are instantiated.\<close>

definition restingParticle :: "ParticleType \<Rightarrow> string \<Rightarrow> Particle" where
  "restingParticle ty i =
     \<lparr> mesh_position = Vector3 0 0 0, mesh_rotation = Vector3 0 0 0, mesh_scale = Vector3 1 1 1,
       ptype = ty, targetPos = Vector3 0 0 0, randomVelocity = Vector3 0 0 0,
       initialScale = Vector3 1 1 1, pid = i \<rparr>"

definition sceneOf :: "ExperienceMode \<Rightarrow> string option \<Rightarrow> Particle list \<Rightarrow> Experience" where
  "sceneOf m fid ps =
     initial\<lparr> particles := ps, state := (state initial)\<lparr> mode := m \<rparr>, focusTargetId := fid \<rparr>"

definition twoParticles :: "ExperienceMode \<Rightarrow> Experience" where
  "twoParticles m = sceneOf m None [restingParticle BOX ''a'', restingParticle PHOTO ''b'']"

text \<open>
  A scene of the size that \<^verbatim>\<open>initContent\<close> builds: 1500 decorations and one photo.
\<close>

definition fullScene :: Experience where
  "fullScene =
     sceneOf TREE None (replicate 1500 (restingParticle BOX ''d'') @ [restingParticle PHOTO ''p''])"

text \<open>
  Names for parts of \<open>processGestures\<close>, used to state what it does: the guard of its
  first line, and the object after the time stamp and the pointer have been written
  from the landmarks \<open>lms\<close> of the first hand.
\<close>

definition available :: "GestureInput \<Rightarrow> bool" where
  "available inp = (handLandmarker inp \<and> video inp \<and> 2 \<le> readyState inp)"

definition pointerTo :: "Landmark list \<Rightarrow> real \<Rightarrow> Experience \<Rightarrow> Experience" where
  "pointerTo lms t e =
     e\<lparr> lastVideoTime := t,
        state := (state e)\<lparr> handX := (lx (lms ! 9) - 0.5) * 2, handY := (ly (lms ! 9) - 0.5) * 2 \<rparr> \<rparr>"

text \<open>
  The identifiers of the PHOTO particles, in order, and the two conditions on the focus
  identifier: it names a PHOTO particle of the scene, and it is set in FOCUS mode only.
\<close>

definition photoIds :: "Experience \<Rightarrow> string list" where
  "photoIds e = map pid (filter (\<lambda>p. ptype p = PHOTO) (particles e))"

definition focusValid :: "Experience \<Rightarrow> bool" where
  "focusValid e = (case focusTargetId e of None \<Rightarrow> True | Some i \<Rightarrow> i \<in> set (photoIds e))"

definition focusInvariant :: "Experience \<Rightarrow> bool" where
  "focusInvariant e =
     (case focusTargetId e of None \<Rightarrow> True
      | Some i \<Rightarrow> mode (state e) = FOCUS \<and> i \<in> set (photoIds e))"

text \<open>
  The ring of the FOCUS layout: a distance between 40 and 60 from the vertical axis and
  a height between -20 and 20.
\<close>

definition onRing :: "Vector3 \<Rightarrow> bool" where
  "onRing q = (40 \<le> radial q \<and> radial q \<le> 60 \<and> - 20 \<le> vy q \<and> vy q \<le> 20)"

text \<open>
  Hands of 21 landmarks: the wrist at index 0, the thumb tip at 4, the four other finger
  tips at 8, 12, 16 and 20, and the palm centre everywhere else, in particular at 9.
  \<open>pinchHand\<close> has a pinch distance of 0.03 and an average extension of 0.5;
  \<open>fistHand\<close> has a pinch distance of 0.2 and an average extension of 0.1.
\<close>

definition handOf :: "Landmark \<Rightarrow> Landmark \<Rightarrow> Landmark \<Rightarrow> Landmark \<Rightarrow> Landmark list" where
  "handOf wrist thumb tip center =
     [wrist, center, center, center, thumb, center, center, center, tip, center, center,
      center, tip, center, center, center, tip, center, center, center, tip]"

definition pinchHand :: "Landmark list" where
  "pinchHand = handOf \<lparr> lx = 0.53, ly = 0 \<rparr> \<lparr> lx = 0.5, ly = 0.5 \<rparr> \<lparr> lx = 0.53, ly = 0.5 \<rparr>
     \<lparr> lx = 0.5, ly = 0.5 \<rparr>"

definition fistHand :: "Landmark list" where
  "fistHand = handOf \<lparr> lx = 0.5, ly = 0.5 \<rparr> \<lparr> lx = 0.5, ly = 0.8 \<rparr> \<lparr> lx = 0.5, ly = 0.6 \<rparr>
     \<lparr> lx = 1, ly = 0.5 \<rparr>"

text \<open>A frame of a playing video at time \<open>t\<close> in which the given hands are detected.\<close>

definition frameAt :: "real \<Rightarrow> Landmark list list \<Rightarrow> GestureInput" where
  "frameAt t hands =
     \<lparr> handLandmarker = True, video = True, readyState = 4, currentTime = t,
       landmarks = Some hands \<rparr>"

text \<open>Two generators: every draw is 0, every draw is 1/2.\<close>

definition allZero :: rng where
  "allZero = (\<lambda>n. rnd_zero)"

definition allHalf :: rng where
  "allHalf = (\<lambda>n. rnd_half)"

text \<open>
  The object after the frame with the pinching hand has written the time stamp, the
  pointer and the mode FOCUS, before the layout is recomputed.
\<close>

definition enterFocus :: "Experience \<Rightarrow> Experience" where
  "enterFocus e = (pointerTo pinchHand 0 e)\<lparr> state := (state (pointerTo pinchHand 0 e))\<lparr> mode := FOCUS \<rparr> \<rparr>"

text \<open>
  Two runs of the program. In the first a decoration and a photo are created with the
  same identifier, and a frame with the pinching hand follows. In the second the first
  photo is created with the empty identifier, a second photo follows, and then the frame
  with the pinching hand.
\<close>

definition sameIdScene :: Experience where
  "sameIdScene =
     fst (outcome_value (animate (frameAt 0 [pinchHand])
       (fst (addPhotoToScene ''a''
          (fst (addDecoration (Vector3 0 0 0) BOX ''a'' initial allZero)) allZero)) allZero))"

definition emptyIdScene :: Experience where
  "emptyIdScene =
     fst (outcome_value (animate (frameAt 0 [pinchHand])
       (fst (addPhotoToScene ''b'' (fst (addPhotoToScene [] initial allZero)) allZero)) allZero))"

section \<open>The position of a particle converges to its target\<close>

lemma sqrt_scale3:
  fixes c :: real
  assumes "0 \<le> c"
  shows "sqrt ((c * a)\<^sup>2 + (c * b)\<^sup>2 + (c * d)\<^sup>2) = c * sqrt (a\<^sup>2 + b\<^sup>2 + d\<^sup>2)"
proof -
  have "(c * a)\<^sup>2 + (c * b)\<^sup>2 + (c * d)\<^sup>2 = c\<^sup>2 * (a\<^sup>2 + b\<^sup>2 + d\<^sup>2)"
    by (simp add: power_mult_distrib distrib_left)
  then show ?thesis
    using assms by (simp add: real_sqrt_mult)
qed

lemma update_targetPos: "targetPos (Particle_update m f p) = targetPos p"
  by (simp add: Particle_update_def Let_def)

lemma update_position:
  "mesh_position (Particle_update m f p) = lerp (mesh_position p) (targetPos p) 0.08"
  by (simp add: Particle_update_def Let_def)

lemma lerp_remaining:
  fixes a v :: real
  shows "a + (v - a) * (8 / 100) - v = (92 / 100) * (a - v)"
  by argo

lemma lerp_distance:
  "distanceTo (lerp a v (8 / 100)) v = (92 / 100) * distanceTo a v"
proof -
  have "distanceTo (lerp a v (8 / 100)) v =
      sqrt (((92 / 100) * (vx a - vx v))\<^sup>2 + ((92 / 100) * (vy a - vy v))\<^sup>2
        + ((92 / 100) * (vz a - vz v))\<^sup>2)"
    unfolding distanceTo_def lerp_def Vector3.sel lerp_remaining ..
  also have "\<dots> = (92 / 100) * distanceTo a v"
    unfolding distanceTo_def by (rule sqrt_scale3) simp
  finally show ?thesis .
qed

lemma update_distance:
  "distanceTo (mesh_position (Particle_update m f p)) (targetPos p)
     = 0.92 * distanceTo (mesh_position p) (targetPos p)"
  using lerp_distance [of "mesh_position p" "targetPos p"] by (simp add: update_position)

lemma distanceTo_nonneg: "0 \<le> distanceTo a b"
  by (simp add: distanceTo_def)

lemma updates_targetPos: "targetPos (updates calls p) = targetPos p"
  unfolding updates_def
  by (induction calls arbitrary: p) (simp_all add: update_targetPos split: prod.splits)

lemma updates_distance:
  "distanceTo (mesh_position (updates calls p)) (targetPos p)
     = distanceTo (mesh_position p) (targetPos p) * 0.92 ^ length calls"
proof (induction calls rule: rev_induct)
  case Nil
  show ?case by (simp add: updates_def)
next
  case (snoc c calls)
  obtain m f where c: "c = (m, f)" by (cases c)
  have "updates (calls @ [c]) p = Particle_update m f (updates calls p)"
    by (simp add: updates_def c)
  then show ?case
    using update_distance [of m f "updates calls p"] snoc
    by (simp add: updates_targetPos)
qed

text \<open>
  Claim C1. One call of \<^verbatim>\<open>update\<close>, in any mode and with any focus identifier, adds to
  each coordinate of the position 8% of what separates it from the target, so the
  distance to the target is multiplied by 0.92 and never grows; the call leaves the
  target alone, and after any run of \<open>k\<close> calls the distance to the target is the
  initial distance times \<open>0.92 ^ k\<close>.
\<close>

theorem C1_update_converges:
  "mesh_position (Particle_update m f p)
      = Vector3 (vx (mesh_position p) + 0.08 * (vx (targetPos p) - vx (mesh_position p)))
                (vy (mesh_position p) + 0.08 * (vy (targetPos p) - vy (mesh_position p)))
                (vz (mesh_position p) + 0.08 * (vz (targetPos p) - vz (mesh_position p)))
   \<and> distanceTo (mesh_position (Particle_update m f p)) (targetPos p)
      \<le> distanceTo (mesh_position p) (targetPos p)
   \<and> targetPos (updates calls p) = targetPos p
   \<and> distanceTo (mesh_position (updates calls p)) (targetPos p)
      = distanceTo (mesh_position p) (targetPos p) * 0.92 ^ length calls"
proof (intro conjI)
  show "mesh_position (Particle_update m f p)
      = Vector3 (vx (mesh_position p) + 0.08 * (vx (targetPos p) - vx (mesh_position p)))
                (vy (mesh_position p) + 0.08 * (vy (targetPos p) - vy (mesh_position p)))
                (vz (mesh_position p) + 0.08 * (vz (targetPos p) - vz (mesh_position p)))"
    by (simp add: update_position lerp_def)
  show "distanceTo (mesh_position (Particle_update m f p)) (targetPos p)
      \<le> distanceTo (mesh_position p) (targetPos p)"
    unfolding update_distance
    using distanceTo_nonneg [of "mesh_position p" "targetPos p"] by simp
  show "targetPos (updates calls p) = targetPos p"
    by (rule updates_targetPos)
  show "distanceTo (mesh_position (updates calls p)) (targetPos p)
      = distanceTo (mesh_position p) (targetPos p) * 0.92 ^ length calls"
    by (rule updates_distance)
qed

section \<open>What the layout does to the list of particles\<close>

lemma Math_random_range:
  "0 \<le> fst (Math_random g) \<and> fst (Math_random g) < 1"
  using Rep_unit_interval [of "g 0"] by (simp add: Math_random_def)

lemma forEach_length: "length (fst (forEach m fid n i ps g)) = length ps"
  by (induction ps arbitrary: i g) (simp_all add: split_def Let_def)

lemma forEach_nth:
  assumes Q: "\<And>k p h. Q k p (fst (setTarget m fid n k p h))"
  shows "j < length ps \<Longrightarrow> Q (i + j) (ps ! j) (fst (forEach m fid n i ps g) ! j)"
proof (induction ps arbitrary: i j g)
  case Nil
  then show ?case by simp
next
  case (Cons p ps)
  show ?case
  proof (cases j)
    case 0
    then show ?thesis using Q [of i p g] by (simp add: split_def Let_def)
  next
    case (Suc j')
    with Cons.prems have "j' < length ps" by simp
    from Cons.IH [OF this, of "Suc i" "snd (setTarget m fid n i p g)"] Suc
    show ?thesis by (simp add: split_def Let_def)
  qed
qed

lemma calculateTargets_state: "state (fst (calculateTargets e g)) = state e"
  by (simp add: calculateTargets_def split_def Let_def)

lemma calculateTargets_lastVideoTime:
  "lastVideoTime (fst (calculateTargets e g)) = lastVideoTime e"
  by (simp add: calculateTargets_def split_def Let_def)

lemma calculateTargets_focus:
  "focusTargetId (fst (calculateTargets e g))
     = fst (selectFocus (mode (state e)) (focusTargetId e) (particles e) g)"
  by (simp add: calculateTargets_def split_def Let_def)

lemma calculateTargets_particles:
  "particles (fst (calculateTargets e g))
     = fst (forEach (mode (state e))
              (fst (selectFocus (mode (state e)) (focusTargetId e) (particles e) g))
              (length (particles e)) 0 (particles e)
              (snd (selectFocus (mode (state e)) (focusTargetId e) (particles e) g)))"
  by (simp add: calculateTargets_def split_def Let_def)

lemma calculateTargets_length:
  "length (particles (fst (calculateTargets e g))) = length (particles e)"
  by (simp add: calculateTargets_particles forEach_length)

lemma calculateTargets_nth:
  assumes "\<And>k p h. Q k p (fst (setTarget (mode (state e))
              (focusTargetId (fst (calculateTargets e g))) (length (particles e)) k p h))"
    and "j < length (particles e)"
  shows "Q j (particles e ! j) (particles (fst (calculateTargets e g)) ! j)"
  using forEach_nth [where Q = Q and i = 0 and j = j and ps = "particles e", OF _ assms(2)] assms(1)
  by (simp add: calculateTargets_particles calculateTargets_focus)

lemma sceneOf_simps [simp]:
  "mode (state (sceneOf m fid ps)) = m"
  "particles (sceneOf m fid ps) = ps"
  "focusTargetId (sceneOf m fid ps) = fid"
  by (simp_all add: sceneOf_def)

section \<open>The TREE layout\<close>

lemma setTarget_TREE:
  "targetPos (fst (setTarget TREE fid n k p h)) = treeTarget n k"
  by (simp add: setTarget_def treeTarget_def Let_def maxRadius_def height_def mult.assoc)

lemma tree_nth:
  assumes "mode (state e) = TREE" "i < length (particles e)"
  shows "targetPos (particles (fst (calculateTargets e g)) ! i) = treeTarget (length (particles e)) i"
  using calculateTargets_nth [where Q = "\<lambda>k p q. targetPos q = treeTarget (length (particles e)) k"
      and e = e and j = i and g = g] assms
  by (simp add: setTarget_TREE)

lemma treeTarget_0: "treeTarget N 0 = Vector3 14 (- 14) 0"
  by (simp add: treeTarget_def)

lemma radial_polar: "0 \<le> r \<Longrightarrow> radial (Vector3 (r * cos a) h (r * sin a)) = r"
proof -
  assume r: "0 \<le> r"
  have "(r * cos a)\<^sup>2 + (r * sin a)\<^sup>2 = r\<^sup>2 * ((cos a)\<^sup>2 + (sin a)\<^sup>2)"
    by (simp only: power_mult_distrib distrib_left)
  also have "\<dots> = r\<^sup>2" by simp
  finally show ?thesis using r by (simp add: radial_def)
qed

lemma treeTarget_last:
  assumes "0 < N"
  shows "radial (treeTarget N (N - 1)) = 14 / real N"
    and "vy (treeTarget N (N - 1)) = 14 - 28 / real N"
proof -
  define r where "r = 14 / real N"
  define a where "a = real (N - 1) / real N * (50 * pi)"
  have r0: "0 \<le> r" by (simp add: r_def)
  have t: "real (N - 1) / real N = 1 - 1 / real N"
    using assms by (simp add: field_simps of_nat_diff)
  have r: "14 * (1 - real (N - 1) / real N) = r"
    unfolding t r_def by simp
  have h: "real (N - 1) / real N * 28 - 14 = 14 - 28 / real N"
    unfolding t by (simp add: algebra_simps)
  have eq: "treeTarget N (N - 1) = Vector3 (r * cos a) (14 - 28 / real N) (r * sin a)"
    unfolding treeTarget_def Let_def r h a_def ..
  show "radial (treeTarget N (N - 1)) = 14 / real N"
    unfolding eq using radial_polar [OF r0] by (simp add: r_def)
  show "vy (treeTarget N (N - 1)) = 14 - 28 / real N"
    unfolding eq by simp
qed

text \<open>
  Claim C4. After \<^verbatim>\<open>calculateTargets\<close> in TREE mode on a list of \<open>N\<close> particles, the
  particle at index \<open>i\<close> has the target \<open>treeTarget N i\<close>, which is the position
  \<open>(radius * cos angle, height, radius * sin angle)\<close> with \<open>t = i / N\<close>,
  \<open>radius = 14 * (1 - t)\<close>, \<open>angle = t * 50 * pi\<close> and \<open>height = t * 28 - 14\<close>; the list
  keeps its length. Index 0 gets the target \<open>(14, -14, 0)\<close>: radius 14, height -14.
  Index \<open>N - 1\<close> gets a target at distance \<open>14 / N\<close> from the axis and at height
  \<open>14 - 28 / N\<close>: these are the exact values behind the claim's "radius about 0" and
  "height about 14", which they approach as \<open>N\<close> grows. On the scene of 1501 particles
  that the program starts with they are \<open>14 / 1501\<close> and \<open>14 - 28 / 1501\<close>.
\<close>

theorem C4_tree_layout:
  assumes "mode (state e) = TREE" and "i < length (particles e)"
  shows "targetPos (particles (fst (calculateTargets e g)) ! i)
           = treeTarget (length (particles e)) i
       \<and> length (particles (fst (calculateTargets e g))) = length (particles e)
       \<and> targetPos (particles (fst (calculateTargets e g)) ! 0) = Vector3 14 (- 14) 0
       \<and> radial (targetPos (particles (fst (calculateTargets e g)) ! (length (particles e) - 1)))
           = 14 / real (length (particles e))
       \<and> vy (targetPos (particles (fst (calculateTargets e g)) ! (length (particles e) - 1)))
           = 14 - 28 / real (length (particles e))"
proof -
  from assms(2) have N: "0 < length (particles e)" by arith
  then have l: "length (particles e) - 1 < length (particles e)" by simp
  show ?thesis
    unfolding tree_nth [OF assms(1) assms(2)] tree_nth [OF assms(1) N]
      tree_nth [OF assms(1) l] treeTarget_last [OF N] calculateTargets_length treeTarget_0
    by simp
qed

theorem C4_tree_layout_witness:
  "targetPos (particles (fst (calculateTargets fullScene (\<lambda>n. rnd_zero))) ! 1500)
       = treeTarget 1501 1500
   \<and> length (particles (fst (calculateTargets fullScene (\<lambda>n. rnd_zero)))) = 1501
   \<and> targetPos (particles (fst (calculateTargets fullScene (\<lambda>n. rnd_zero))) ! 0)
       = Vector3 14 (- 14) 0
   \<and> radial (targetPos (particles (fst (calculateTargets fullScene (\<lambda>n. rnd_zero))) ! 1500))
       = 14 / 1501
   \<and> vy (targetPos (particles (fst (calculateTargets fullScene (\<lambda>n. rnd_zero))) ! 1500))
       = 14 - 28 / 1501"
proof -
  have len: "length (particles fullScene) = 1501"
    by (simp add: fullScene_def)
  have h1: "mode (state fullScene) = TREE"
    by (simp add: fullScene_def)
  have h2: "1500 < length (particles fullScene)"
    by (simp add: len)
  have e1: "(1501::nat) - 1 = 1500" by simp
  have e2: "real (1501::nat) = 1501" by simp
  show ?thesis
    using C4_tree_layout [OF h1 h2, of "\<lambda>n. rnd_zero"] unfolding len e1 e2 .
qed

section \<open>The SCATTER layout\<close>

lemma vlength_spherical:
  assumes "0 \<le> r"
  shows "vlength (Vector3 (r * sin p * cos t) (r * sin p * sin t) (r * cos p)) = r"
proof -
  have "(r * sin p * cos t)\<^sup>2 + (r * sin p * sin t)\<^sup>2
      = (r * sin p)\<^sup>2 * ((cos t)\<^sup>2 + (sin t)\<^sup>2)"
    by (simp only: power_mult_distrib distrib_left)
  also have "\<dots> = (r * sin p)\<^sup>2" by simp
  finally have "(r * sin p * cos t)\<^sup>2 + (r * sin p * sin t)\<^sup>2 + (r * cos p)\<^sup>2
      = r\<^sup>2 * ((sin p)\<^sup>2 + (cos p)\<^sup>2)"
    by (simp only: power_mult_distrib distrib_left)
  also have "\<dots> = r\<^sup>2" by simp
  finally show ?thesis using assms by (simp add: vlength_def)
qed

lemma setTarget_SCATTER:
  "10 \<le> vlength (targetPos (fst (setTarget SCATTER fid n k p h)))
   \<and> vlength (targetPos (fst (setTarget SCATTER fid n k p h))) < 25"
proof -
  define u where "u = fst (Math_random (snd (Math_random (snd (Math_random h)))))"
  have u: "0 \<le> u" "u < 1" using Math_random_range unfolding u_def by blast+
  define r where "r = 10 + u * 15"
  have r: "10 \<le> r" "r < 25" using u by (simp_all add: r_def)
  define th where "th = fst (Math_random h) * pi * 2"
  define ph where "ph = arccos (2 * fst (Math_random (snd (Math_random h))) - 1)"
  have "targetPos (fst (setTarget SCATTER fid n k p h))
       = Vector3 (r * sin ph * cos th) (r * sin ph * sin th) (r * cos ph)"
    by (simp add: setTarget_def split_def Let_def r_def u_def ph_def th_def)
  then show ?thesis using r vlength_spherical [of r ph th] by simp
qed

text \<open>
  Claim C9. After \<^verbatim>\<open>calculateTargets\<close> in SCATTER mode the list has as many particles
  as before, and the target of each lies at a Euclidean distance of at least 10 and at
  most 25 from the origin, whatever the random draws are.
\<close>

theorem C9_scatter_shell:
  assumes "mode (state e) = SCATTER" and "i < length (particles e)"
  shows "length (particles (fst (calculateTargets e g))) = length (particles e)
       \<and> 10 \<le> vlength (targetPos (particles (fst (calculateTargets e g)) ! i))
       \<and> vlength (targetPos (particles (fst (calculateTargets e g)) ! i)) \<le> 25"
  using calculateTargets_nth [where Q = "\<lambda>k p q. 10 \<le> vlength (targetPos q) \<and> vlength (targetPos q) \<le> 25"
      and e = e and j = i and g = g] assms setTarget_SCATTER
  by (simp add: less_imp_le calculateTargets_length)

theorem C9_scatter_shell_witness:
  "length (particles (fst (calculateTargets (twoParticles SCATTER) (\<lambda>n. rnd_half))))
       = length (particles (twoParticles SCATTER))
   \<and> 10 \<le> vlength (targetPos (particles (fst (calculateTargets (twoParticles SCATTER)
              (\<lambda>n. rnd_half))) ! 1))
   \<and> vlength (targetPos (particles (fst (calculateTargets (twoParticles SCATTER)
              (\<lambda>n. rnd_half))) ! 1)) \<le> 25"
proof -
  have h1: "mode (state (twoParticles SCATTER)) = SCATTER"
    by (simp add: twoParticles_def)
  have h2: "1 < length (particles (twoParticles SCATTER))"
    by (simp add: twoParticles_def)
  show ?thesis by (rule C9_scatter_shell [OF h1 h2])
qed

section \<open>The FOCUS layout without a photo\<close>

lemma radial_polar_code: "0 \<le> r \<Longrightarrow> radial (Vector3 (cos a * r) h (sin a * r)) = r"
  using radial_polar [of r a h] by (simp add: mult.commute)

lemma radial_front: "radial (Vector3 0 2 35) = 35"
  by (simp add: radial_def)

lemma onRing_not_front: "onRing q \<Longrightarrow> q \<noteq> Vector3 0 2 35"
  using radial_front by (auto simp add: onRing_def)

lemma setTarget_pid [simp]: "pid (fst (setTarget m fid n k p h)) = pid p"
  by (simp add: setTarget_def split_def Let_def)

lemma setTarget_ptype [simp]: "ptype (fst (setTarget m fid n k p h)) = ptype p"
  by (simp add: setTarget_def split_def Let_def)

lemma setTarget_FOCUS_target:
  "Some (pid p) = fid \<Longrightarrow> targetPos (fst (setTarget FOCUS fid n k p h)) = Vector3 0 2 35"
  by (simp add: setTarget_def)

lemma setTarget_FOCUS_other:
  assumes "Some (pid p) \<noteq> fid"
  shows "onRing (targetPos (fst (setTarget FOCUS fid n k p h)))"
proof -
  define u2 where "u2 = fst (Math_random (snd (Math_random h)))"
  define u3 where "u3 = fst (Math_random (snd (Math_random (snd (Math_random h)))))"
  have u: "0 \<le> u2" "u2 < 1" "0 \<le> u3" "u3 < 1"
    using Math_random_range unfolding u2_def u3_def by blast+
  define r where "r = 40 + u2 * 20"
  define a where "a = fst (Math_random h) * pi * 2"
  have r: "40 \<le> r" "r \<le> 60" using u by (simp_all add: r_def)
  have "targetPos (fst (setTarget FOCUS fid n k p h))
      = Vector3 (cos a * r) ((u3 - 0.5) * 40) (sin a * r)"
    using assms by (simp add: setTarget_def split_def Let_def r_def a_def u2_def u3_def)
  moreover have "radial (Vector3 (cos a * r) ((u3 - 0.5) * 40) (sin a * r)) = r"
    by (rule radial_polar_code) (use r in simp)
  ultimately show ?thesis using r u by (simp add: onRing_def)
qed

lemma forEach_pid: "map pid (fst (forEach m fid n i ps g)) = map pid ps"
  by (induction ps arbitrary: i g) (simp_all add: split_def Let_def)

lemma forEach_ptype: "map ptype (fst (forEach m fid n i ps g)) = map ptype ps"
  by (induction ps arbitrary: i g) (simp_all add: split_def Let_def)

lemma forEach_photos:
  "map pid (filter (\<lambda>p. ptype p = PHOTO) (fst (forEach m fid n i ps g)))
     = map pid (filter (\<lambda>p. ptype p = PHOTO) ps)"
  by (induction ps arbitrary: i g) (simp_all add: split_def Let_def)

lemma calculateTargets_pid:
  "map pid (particles (fst (calculateTargets e g))) = map pid (particles e)"
  by (simp add: calculateTargets_particles forEach_pid)

lemma calculateTargets_ptype:
  "map ptype (particles (fst (calculateTargets e g))) = map ptype (particles e)"
  by (simp add: calculateTargets_particles forEach_ptype)

lemma calculateTargets_photoIds: "photoIds (fst (calculateTargets e g)) = photoIds e"
  by (simp add: photoIds_def calculateTargets_particles forEach_photos)

lemma selectFocus_no_photo:
  assumes "\<forall>p \<in> set ps. ptype p \<noteq> PHOTO"
  shows "selectFocus FOCUS None ps g = (None, g)"
proof -
  have "filter (\<lambda>p. ptype p = PHOTO) ps = []"
    using assms by (simp add: filter_empty_conv)
  then show ?thesis by (simp add: selectFocus_def)
qed

text \<open>
  Claim C10. When \<^verbatim>\<open>calculateTargets\<close> runs in FOCUS mode on a scene without a PHOTO
  particle and with no focus target set, the focus target stays unset, the list keeps
  its length, and every particle gets a target on the far ring (between 40 and 60 from
  the vertical axis, at a height between -20 and 20); none gets the position
  \<open>(0, 2, 35)\<close> in front of the camera.
\<close>

theorem C10_focus_without_photo:
  assumes "mode (state e) = FOCUS" and "focusTargetId e = None"
    and "\<forall>p \<in> set (particles e). ptype p \<noteq> PHOTO"
    and "i < length (particles e)"
  shows "focusTargetId (fst (calculateTargets e g)) = None
       \<and> length (particles (fst (calculateTargets e g))) = length (particles e)
       \<and> onRing (targetPos (particles (fst (calculateTargets e g)) ! i))
       \<and> targetPos (particles (fst (calculateTargets e g)) ! i) \<noteq> Vector3 0 2 35"
proof -
  have f: "focusTargetId (fst (calculateTargets e g)) = None"
    using selectFocus_no_photo [OF assms(3), of g] assms(1,2) by (simp add: calculateTargets_focus)
  have "onRing (targetPos (particles (fst (calculateTargets e g)) ! i))"
    using calculateTargets_nth [where Q = "\<lambda>k p q. onRing (targetPos q)" and e = e and j = i and g = g]
      assms(1,4) f setTarget_FOCUS_other
    by simp
  then show ?thesis using f onRing_not_front by (simp add: calculateTargets_length)
qed

theorem C10_focus_without_photo_witness:
  "focusTargetId (fst (calculateTargets
       (sceneOf FOCUS None [restingParticle BOX ''a'', restingParticle CANDY ''b''])
       (\<lambda>n. rnd_half))) = None
   \<and> length (particles (fst (calculateTargets
       (sceneOf FOCUS None [restingParticle BOX ''a'', restingParticle CANDY ''b''])
       (\<lambda>n. rnd_half))))
      = length (particles (sceneOf FOCUS None [restingParticle BOX ''a'', restingParticle CANDY ''b'']))
   \<and> onRing (targetPos (particles (fst (calculateTargets
       (sceneOf FOCUS None [restingParticle BOX ''a'', restingParticle CANDY ''b''])
       (\<lambda>n. rnd_half))) ! 1))
   \<and> targetPos (particles (fst (calculateTargets
       (sceneOf FOCUS None [restingParticle BOX ''a'', restingParticle CANDY ''b''])
       (\<lambda>n. rnd_half))) ! 1) \<noteq> Vector3 0 2 35"
  by (rule C10_focus_without_photo) (simp_all add: restingParticle_def)

section \<open>What a frame of gestures does\<close>

lemma processGestures_unavailable:
  "\<not> available inp \<Longrightarrow> processGestures inp e g = Returned (e, g)"
  by (auto simp add: processGestures_def available_def)

lemma processGestures_same_time:
  "currentTime inp = lastVideoTime e \<Longrightarrow> processGestures inp e g = Returned (e, g)"
  by (simp add: processGestures_def)

lemma processGestures_hand:
  assumes "available inp" "currentTime inp \<noteq> lastVideoTime e"
    "landmarks inp = Some (lms # rest)" "21 \<le> length lms"
  shows "processGestures inp e g =
     Returned (commitMode (newMode (mode (state e)) (pinchDist lms) (avgTipDist lms))
       (pointerTo lms (currentTime inp) e) g)"
  using assms by (simp add: processGestures_def available_def pointerTo_def Let_def)

lemma processGestures_lastVideoTime:
  assumes "available inp"
  shows "lastVideoTime (fst (outcome_value (processGestures inp e g))) = currentTime inp"
  using assms
  by (auto simp add: processGestures_def available_def Let_def commitMode_def
      calculateTargets_lastVideoTime split: option.splits)

lemma commitMode_mode: "mode (state (fst (commitMode nm e g))) = nm"
  by (simp add: commitMode_def calculateTargets_state)

lemma commitMode_same: "commitMode (mode (state e)) e g = (e, g)"
  by (simp add: commitMode_def)

lemma hypot_0_left: "hypot 0 b = \<bar>b\<bar>"
  by (simp add: hypot_def)

lemma hypot_0_right: "hypot a 0 = \<bar>a\<bar>"
  by (simp add: hypot_def)

lemma pinchHand_values: "pinchDist pinchHand = 0.03" "avgTipDist pinchHand = 0.5" "length pinchHand = 21"
  by (simp_all add: pinchDist_def avgTipDist_def pinchHand_def handOf_def hypot_0_left hypot_0_right)

lemma fistHand_values: "pinchDist fistHand = 0.2" "avgTipDist fistHand = 0.1" "length fistHand = 21"
  by (simp_all add: pinchDist_def avgTipDist_def fistHand_def handOf_def hypot_0_left hypot_0_right)

lemma commitMode_state: "state (fst (commitMode nm e g)) = (state e)\<lparr> mode := nm \<rparr>"
  by (simp add: commitMode_def calculateTargets_state)

lemma pinch_frame_focus:
  "mode (state (fst (outcome_value
      (processGestures (frameAt 0 [pinchHand]) (twoParticles TREE) (\<lambda>n. rnd_zero))))) = FOCUS"
proof -
  have a: "available (frameAt 0 [pinchHand])" by (simp add: available_def frameAt_def)
  have "processGestures (frameAt 0 [pinchHand]) (twoParticles TREE) (\<lambda>n. rnd_zero)
     = Returned (commitMode (newMode (mode (state (twoParticles TREE))) (pinchDist pinchHand)
         (avgTipDist pinchHand)) (pointerTo pinchHand (currentTime (frameAt 0 [pinchHand]))
           (twoParticles TREE)) (\<lambda>n. rnd_zero))"
    by (rule processGestures_hand [OF a])
      (simp_all add: frameAt_def pinchHand_values twoParticles_def sceneOf_def initial_def)
  then show ?thesis
    by (simp add: commitMode_mode newMode_def pinchHand_values)
qed

text \<open>
  Claim C6. On a new frame with a hand of at least 21 landmarks the call returns, and
  the mode it leaves is FOCUS when the pinch distance is below 0.05, whatever the
  extension; otherwise TREE when the average extension is below 0.25; otherwise SCATTER
  when the average extension is above 0.4; otherwise the mode it found. The witness is
  the hand with pinch distance 0.03 and average extension 0.5, which gives FOCUS.
\<close>

theorem C6_gesture_precedence:
  assumes "handLandmarker inp" and "video inp" and "2 \<le> readyState inp"
    and "currentTime inp \<noteq> lastVideoTime e"
    and "landmarks inp = Some (lms # rest)" and "21 \<le> length lms"
  shows "\<exists>r. processGestures inp e g = Returned r
       \<and> mode (state (fst r)) =
           (if pinchDist lms < 0.05 then FOCUS
            else if avgTipDist lms < 0.25 then TREE
            else if 0.4 < avgTipDist lms then SCATTER
            else mode (state e))"
proof -
  have a: "available inp" using assms(1-3) by (simp add: available_def)
  show ?thesis
    unfolding processGestures_hand [OF a assms(4-6)]
    by (simp add: commitMode_mode newMode_def pointerTo_def)
qed

theorem C6_gesture_precedence_witness:
  "pinchDist pinchHand = 0.03 \<and> avgTipDist pinchHand = 0.5
   \<and> (\<exists>r. processGestures (frameAt 0 [pinchHand]) (twoParticles TREE) (\<lambda>n. rnd_zero) = Returned r
       \<and> mode (state (fst r)) = FOCUS)"
proof -
  have "lastVideoTime (twoParticles TREE) = - 1"
    by (simp add: twoParticles_def sceneOf_def initial_def)
  then have "\<exists>r. processGestures (frameAt 0 [pinchHand]) (twoParticles TREE) (\<lambda>n. rnd_zero) = Returned r
       \<and> mode (state (fst r)) =
           (if pinchDist pinchHand < 0.05 then FOCUS
            else if avgTipDist pinchHand < 0.25 then TREE
            else if 0.4 < avgTipDist pinchHand then SCATTER
            else mode (state (twoParticles TREE)))"
    by (intro C6_gesture_precedence) (simp_all add: frameAt_def pinchHand_values)
  then show ?thesis by (simp add: pinchHand_values)
qed


text \<open>
  Claim C5. A request for the mode the scene is already in changes nothing:
  \<open>commitMode\<close> with the current mode returns the object and the generator as they are,
  and a call of \<^verbatim>\<open>processGestures\<close> whose gesture asks for the current mode leaves the
  mode, the focus target and the whole list of particles (so every target position) as
  they were and draws no random number. The pointer and the time stamp of the frame are
  the gesture's own state and are written before the request.
\<close>

theorem C5_same_mode_no_op:
  assumes "handLandmarker inp" and "video inp" and "2 \<le> readyState inp"
    and "currentTime inp \<noteq> lastVideoTime e"
    and "landmarks inp = Some (lms # rest)" and "21 \<le> length lms"
    and "newMode (mode (state e)) (pinchDist lms) (avgTipDist lms) = mode (state e)"
  shows "commitMode (mode (state e)) e g = (e, g)
       \<and> (\<exists>e'. processGestures inp e g = Returned (e', g)
            \<and> mode (state e') = mode (state e)
            \<and> focusTargetId e' = focusTargetId e
            \<and> particles e' = particles e)"
proof -
  have a: "available inp" using assms(1-3) by (simp add: available_def)
  have m: "mode (state (pointerTo lms (currentTime inp) e)) = mode (state e)"
    by (simp add: pointerTo_def)
  have "commitMode (mode (state e)) (pointerTo lms (currentTime inp) e) g
      = (pointerTo lms (currentTime inp) e, g)"
    using commitMode_same [of "pointerTo lms (currentTime inp) e" g] unfolding m .
  then show ?thesis
    unfolding processGestures_hand [OF a assms(4-6)] assms(7)
    by (simp add: commitMode_same) (simp add: pointerTo_def)
qed

theorem C5_same_mode_no_op_witness:
  "newMode (mode (state (twoParticles TREE))) (pinchDist fistHand) (avgTipDist fistHand) = TREE
   \<and> commitMode (mode (state (twoParticles TREE))) (twoParticles TREE) (\<lambda>n. rnd_half)
       = (twoParticles TREE, \<lambda>n. rnd_half)
   \<and> (\<exists>e'. processGestures (frameAt 0 [fistHand]) (twoParticles TREE) (\<lambda>n. rnd_half)
              = Returned (e', \<lambda>n. rnd_half)
            \<and> mode (state e') = mode (state (twoParticles TREE))
            \<and> focusTargetId e' = focusTargetId (twoParticles TREE)
            \<and> particles e' = particles (twoParticles TREE))"
proof -
  have t: "lastVideoTime (twoParticles TREE) = - 1" "mode (state (twoParticles TREE)) = TREE"
    by (simp_all add: twoParticles_def sceneOf_def initial_def)
  have n: "newMode (mode (state (twoParticles TREE))) (pinchDist fistHand) (avgTipDist fistHand)
      = mode (state (twoParticles TREE))"
    by (simp add: t fistHand_values newMode_def)
  have "commitMode (mode (state (twoParticles TREE))) (twoParticles TREE) (\<lambda>n. rnd_half)
       = (twoParticles TREE, \<lambda>n. rnd_half)
   \<and> (\<exists>e'. processGestures (frameAt 0 [fistHand]) (twoParticles TREE) (\<lambda>n. rnd_half)
              = Returned (e', \<lambda>n. rnd_half)
            \<and> mode (state e') = mode (state (twoParticles TREE))
            \<and> focusTargetId e' = focusTargetId (twoParticles TREE)
            \<and> particles e' = particles (twoParticles TREE))"
  proof (rule C5_same_mode_no_op [where lms = fistHand and rest = "[]"])
    show "newMode (mode (state (twoParticles TREE))) (pinchDist fistHand) (avgTipDist fistHand)
      = mode (state (twoParticles TREE))" by (rule n)
  qed (simp_all add: frameAt_def t fistHand_values)
  with n t(2) show ?thesis by simp
qed

text \<open>
  Claim C7. A call is made on a video frame when the landmarker and the video exist and
  the video has a current frame (\<^verbatim>\<open>readyState\<close> at least 2); without them there is no
  frame and no time stamp to read, and the call returns at its first line. After a call
  on a frame, which records the time stamp whether it returns or throws, a second call
  with the same time stamp returns at once: the object, with its mode, focus target,
  pointer and particles, and the generator are unchanged, whatever else the second call
  finds.
\<close>

theorem C7_duplicate_timestamp:
  assumes "handLandmarker inp1" and "video inp1" and "2 \<le> readyState inp1"
    and "currentTime inp2 = currentTime inp1"
    and "outcome_value (processGestures inp1 e g) = (e1, g1)"
  shows "processGestures inp2 e1 g2 = Returned (e1, g2)"
proof -
  have a: "available inp1" using assms(1-3) by (simp add: available_def)
  have "lastVideoTime e1 = currentTime inp1"
    using processGestures_lastVideoTime [OF a, of e g] assms(5) by simp
  then show ?thesis
    using assms(4) by (simp add: processGestures_same_time)
qed

theorem C7_duplicate_timestamp_witness:
  "\<exists>e1 g1. outcome_value (processGestures (frameAt 0 [pinchHand]) (twoParticles TREE) (\<lambda>n. rnd_zero))
              = (e1, g1)
     \<and> mode (state e1) = FOCUS
     \<and> processGestures (frameAt 0 [fistHand]) e1 (\<lambda>n. rnd_half) = Returned (e1, \<lambda>n. rnd_half)"
proof -
  obtain e1 g1 where r: "outcome_value (processGestures (frameAt 0 [pinchHand]) (twoParticles TREE)
      (\<lambda>n. rnd_zero)) = (e1, g1)"
    by (cases "outcome_value (processGestures (frameAt 0 [pinchHand]) (twoParticles TREE)
      (\<lambda>n. rnd_zero))")
  have "processGestures (frameAt 0 [fistHand]) e1 (\<lambda>n. rnd_half) = Returned (e1, \<lambda>n. rnd_half)"
    by (rule C7_duplicate_timestamp [OF _ _ _ _ r]) (simp_all add: frameAt_def)
  moreover have "mode (state e1) = FOCUS"
    using pinch_frame_focus r by simp
  ultimately show ?thesis using r by blast
qed



section \<open>The focus identifier in the reachable states\<close>

lemma floor_index:
  fixes u :: real
  assumes "0 \<le> u" "u < 1" "0 < n"
  shows "nat \<lfloor>u * real n\<rfloor> < n"
proof -
  have "u * real n < real n" using assms by simp
  then have "\<lfloor>u * real n\<rfloor> < int n" by (simp add: floor_less_iff)
  moreover have "0 \<le> \<lfloor>u * real n\<rfloor>" using assms by simp
  ultimately show ?thesis by linarith
qed

lemma update_pid [simp]: "pid (Particle_update m f p) = pid p"
  by (simp add: Particle_update_def Let_def)

lemma update_ptype [simp]: "ptype (Particle_update m f p) = ptype p"
  by (simp add: Particle_update_def Let_def)

lemma filter_map_update:
  "filter (\<lambda>p. ptype p = PHOTO) (map (Particle_update m f) ps)
     = map (Particle_update m f) (filter (\<lambda>p. ptype p = PHOTO) ps)"
  by (induction ps) simp_all

lemma photoIds_updates:
  "photoIds (e\<lparr> particles := map (Particle_update m f) (particles e) \<rparr>) = photoIds e"
  by (simp add: photoIds_def filter_map_update)

lemma new_Particle_fields [simp]:
  "pid (fst (new_Particle pos rot scl ty i g)) = i"
  "ptype (fst (new_Particle pos rot scl ty i g)) = ty"
  by (simp_all add: new_Particle_def split_def Let_def)

lemma selectFocus_not_FOCUS: "m \<noteq> FOCUS \<Longrightarrow> selectFocus m cur ps g = (None, g)"
  by (simp add: selectFocus_def)

lemma selectFocus_keep:
  "\<not> falsy cur \<Longrightarrow> selectFocus FOCUS cur ps g = (cur, g)"
  by (simp add: selectFocus_def)

lemma selectFocus_pick:
  assumes "falsy cur" and "filter (\<lambda>p. ptype p = PHOTO) ps \<noteq> []"
  shows "fst (selectFocus FOCUS cur ps g)
     = Some (map pid (filter (\<lambda>p. ptype p = PHOTO) ps)
         ! nat \<lfloor>fst (Math_random g) * real (length (filter (\<lambda>p. ptype p = PHOTO) ps))\<rfloor>)"
proof -
  have "nat \<lfloor>fst (Math_random g) * real (length (filter (\<lambda>p. ptype p = PHOTO) ps))\<rfloor>
      < length (filter (\<lambda>p. ptype p = PHOTO) ps)"
    using Math_random_range [of g] assms(2) by (intro floor_index) simp_all
  then show ?thesis
    using assms by (simp add: selectFocus_def split_def Let_def)
qed

lemma selectFocus_valid:
  assumes "case cur of None \<Rightarrow> True | Some i \<Rightarrow> i \<in> pid ` {p \<in> set ps. ptype p = PHOTO}"
  shows "case fst (selectFocus m cur ps g) of None \<Rightarrow> True
         | Some i \<Rightarrow> m = FOCUS \<and> i \<in> pid ` {p \<in> set ps. ptype p = PHOTO}"
proof (cases "m = FOCUS")
  case False
  then show ?thesis by (simp add: selectFocus_not_FOCUS)
next
  case True
  show ?thesis
  proof (cases "falsy cur \<and> filter (\<lambda>p. ptype p = PHOTO) ps \<noteq> []")
    case True
    have lt: "nat \<lfloor>fst (Math_random g) * real (length (filter (\<lambda>p. ptype p = PHOTO) ps))\<rfloor>
        < length (filter (\<lambda>p. ptype p = PHOTO) ps)"
      using Math_random_range [of g] True by (intro floor_index) simp_all
    then have "filter (\<lambda>p. ptype p = PHOTO) ps
        ! nat \<lfloor>fst (Math_random g) * real (length (filter (\<lambda>p. ptype p = PHOTO) ps))\<rfloor>
        \<in> set (filter (\<lambda>p. ptype p = PHOTO) ps)"
      by (rule nth_mem)
    then show ?thesis
      using True \<open>m = FOCUS\<close> lt by (simp add: selectFocus_pick)
  next
    case False
    then have "fst (selectFocus m cur ps g) = cur"
      using \<open>m = FOCUS\<close> by (auto simp add: selectFocus_def)
    then show ?thesis using assms \<open>m = FOCUS\<close> by (simp split: option.splits)
  qed
qed

lemma photoIds_set: "set (photoIds e) = pid ` {p \<in> set (particles e). ptype p = PHOTO}"
  by (auto simp add: photoIds_def)

lemma calculateTargets_focusInvariant:
  assumes "focusValid e"
  shows "focusInvariant (fst (calculateTargets e g))"
proof -
  have "case focusTargetId e of None \<Rightarrow> True
        | Some i \<Rightarrow> i \<in> pid ` {p \<in> set (particles e). ptype p = PHOTO}"
    using assms by (simp add: focusValid_def photoIds_set split: option.splits)
  from selectFocus_valid [OF this, of "mode (state e)" g]
  show ?thesis
    by (simp add: focusInvariant_def calculateTargets_focus calculateTargets_state
        calculateTargets_photoIds photoIds_set split: option.splits)
qed

lemma focusInvariant_valid: "focusInvariant e \<Longrightarrow> focusValid e"
  by (simp add: focusInvariant_def focusValid_def split: option.splits)

lemma photoIds_append:
  "photoIds (e\<lparr> particles := particles e @ [p] \<rparr>)
     = photoIds e @ (if ptype p = PHOTO then [pid p] else [])"
  by (simp add: photoIds_def)

lemma focusValid_append: "focusValid e \<Longrightarrow> focusValid (e\<lparr> particles := particles e @ [p] \<rparr>)"
  by (simp add: focusValid_def photoIds_append split: option.splits)

lemma focusInvariant_append:
  "focusInvariant e \<Longrightarrow> focusInvariant (e\<lparr> particles := particles e @ [p] \<rparr>)"
  by (simp add: focusInvariant_def photoIds_append split: option.splits)

lemma focusValid_pointerTo: "focusValid (pointerTo lms t e) = focusValid e"
  by (simp add: focusValid_def pointerTo_def photoIds_def split: option.splits)

lemma focusInvariant_pointerTo: "focusInvariant (pointerTo lms t e) = focusInvariant e"
  by (simp add: focusInvariant_def pointerTo_def photoIds_def split: option.splits)

lemma focusValid_mode: "focusValid (e\<lparr> state := (state e)\<lparr> mode := nm \<rparr> \<rparr>) = focusValid e"
  by (simp add: focusValid_def photoIds_def split: option.splits)

lemma focusInvariant_time: "focusInvariant (e\<lparr> lastVideoTime := t \<rparr>) = focusInvariant e"
  by (simp add: focusInvariant_def photoIds_def split: option.splits)

lemma commitMode_focusInvariant:
  "focusInvariant e \<Longrightarrow> focusInvariant (fst (commitMode nm e g))"
  by (simp add: commitMode_def calculateTargets_focusInvariant focusValid_mode focusInvariant_valid)

lemma processGestures_cases:
  "outcome_value (processGestures inp e g) = (e, g)
   \<or> outcome_value (processGestures inp e g) = (e\<lparr> lastVideoTime := currentTime inp \<rparr>, g)
   \<or> (\<exists>lms. outcome_value (processGestures inp e g) = (pointerTo lms (currentTime inp) e, g)
        \<or> outcome_value (processGestures inp e g)
           = commitMode (newMode (mode (state e)) (pinchDist lms) (avgTipDist lms))
               (pointerTo lms (currentTime inp) e) g)"
  by (auto simp add: processGestures_def Let_def pointerTo_def split: option.splits)

lemma processGestures_focusInvariant:
  assumes "focusInvariant e"
  shows "focusInvariant (fst (outcome_value (processGestures inp e g)))"
  using processGestures_cases [of inp e g] assms
  by (auto simp add: focusInvariant_time focusInvariant_pointerTo commitMode_focusInvariant)

lemma focusInvariant_updates:
  "focusInvariant (e\<lparr> particles := map (Particle_update m f) (particles e) \<rparr>) = focusInvariant e"
  by (simp add: focusInvariant_def photoIds_updates split: option.splits)

lemma animate_value:
  "fst (outcome_value (animate inp e g)) =
     (case processGestures inp e g of
        Threw r \<Rightarrow> fst r
      | Returned r \<Rightarrow> (fst r)\<lparr> particles :=
          map (Particle_update (mode (state (fst r))) (focusTargetId (fst r))) (particles (fst r)) \<rparr>)"
  by (simp add: animate_def split: outcome.splits prod.splits)

lemma animate_focusInvariant:
  assumes "focusInvariant e"
  shows "focusInvariant (fst (outcome_value (animate inp e g)))"
  using processGestures_focusInvariant [OF assms, of inp g]
  by (cases "processGestures inp e g") (simp_all add: animate_value focusInvariant_updates)

lemma addPhotoToScene_focusInvariant:
  "focusInvariant e \<Longrightarrow> focusInvariant (fst (addPhotoToScene i e g))"
  by (simp add: addPhotoToScene_def split_def Let_def calculateTargets_focusInvariant
      focusValid_append focusInvariant_valid)

lemma addDecoration_focusInvariant:
  "focusInvariant e \<Longrightarrow> focusInvariant (fst (addDecoration pos ty i e g))"
  by (simp add: addDecoration_def split_def Let_def focusInvariant_append)

lemma reachable_focusInvariant: "reachable e \<Longrightarrow> focusInvariant e"
proof (induction rule: reachable.induct)
  case r_initial
  show ?case by (simp add: focusInvariant_def initial_def)
next
  case (r_decoration e ty pos newId g)
  then show ?case by (simp add: addDecoration_focusInvariant)
next
  case (r_photo e newId g)
  then show ?case by (simp add: addPhotoToScene_focusInvariant)
next
  case (r_layout e g)
  then show ?case by (simp add: calculateTargets_focusInvariant focusInvariant_valid)
next
  case (r_frame e inp g)
  then show ?case by (simp add: animate_focusInvariant)
qed

lemma focus_cleared:
  "mode (state e) \<noteq> FOCUS \<Longrightarrow> focusTargetId (fst (calculateTargets e g)) = None"
  by (simp add: calculateTargets_focus selectFocus_not_FOCUS)

lemma focus_stable:
  "mode (state e) = FOCUS \<Longrightarrow> focusTargetId e = Some i \<Longrightarrow> i \<noteq> [] \<Longrightarrow>
     focusTargetId (fst (calculateTargets e g)) = Some i"
  by (simp add: calculateTargets_focus selectFocus_keep falsy_def)

lemma addPhotoToScene_state [simp]: "state (fst (addPhotoToScene i e g)) = state e"
  by (simp add: addPhotoToScene_def split_def Let_def calculateTargets_state)

lemma addPhotoToScene_lastVideoTime [simp]:
  "lastVideoTime (fst (addPhotoToScene i e g)) = lastVideoTime e"
  by (simp add: addPhotoToScene_def split_def Let_def calculateTargets_lastVideoTime)

lemma addPhotoToScene_pid [simp]:
  "map pid (particles (fst (addPhotoToScene i e g))) = map pid (particles e) @ [i]"
  by (simp add: addPhotoToScene_def split_def Let_def calculateTargets_pid)

lemma addPhotoToScene_ptype [simp]:
  "map ptype (particles (fst (addPhotoToScene i e g))) = map ptype (particles e) @ [PHOTO]"
  by (simp add: addPhotoToScene_def split_def Let_def calculateTargets_ptype)

lemma addPhotoToScene_photoIds [simp]:
  "photoIds (fst (addPhotoToScene i e g)) = photoIds e @ [i]"
  by (simp add: addPhotoToScene_def split_def Let_def calculateTargets_photoIds photoIds_append)

lemma addPhotoToScene_focus:
  "focusTargetId (fst (addPhotoToScene i e g))
     = focusTargetId (fst (calculateTargets
         (e\<lparr> particles := particles e @
            [fst (new_Particle (Vector3 0 0 0) (Vector3 0 0 0) (Vector3 1 1 1) PHOTO i g)] \<rparr>)
         (snd (new_Particle (Vector3 0 0 0) (Vector3 0 0 0) (Vector3 1 1 1) PHOTO i g))))"
  by (simp add: addPhotoToScene_def split_def Let_def)

lemma addDecoration_simps [simp]:
  "state (fst (addDecoration pos ty i e g)) = state e"
  "lastVideoTime (fst (addDecoration pos ty i e g)) = lastVideoTime e"
  "focusTargetId (fst (addDecoration pos ty i e g)) = focusTargetId e"
  "map pid (particles (fst (addDecoration pos ty i e g))) = map pid (particles e) @ [i]"
  "map ptype (particles (fst (addDecoration pos ty i e g))) = map ptype (particles e) @ [ty]"
  by (simp_all add: addDecoration_def split_def Let_def)

lemma addDecoration_photoIds [simp]:
  "ty \<noteq> PHOTO \<Longrightarrow> photoIds (fst (addDecoration pos ty i e g)) = photoIds e"
  by (simp add: addDecoration_def split_def Let_def photoIds_append)

lemma calculateTargets_focus_pick:
  assumes "mode (state e) = FOCUS" and "falsy (focusTargetId e)" and "photoIds e \<noteq> []"
  shows "focusTargetId (fst (calculateTargets e g))
     = Some (photoIds e ! nat \<lfloor>fst (Math_random g) * real (length (photoIds e))\<rfloor>)"
  using assms selectFocus_pick [of "focusTargetId e" "particles e" g]
  by (simp add: calculateTargets_focus photoIds_def)

lemma focus_front:
  assumes "mode (state e) = FOCUS" and "j < length (particles e)"
    and "Some (pid (particles e ! j)) = focusTargetId (fst (calculateTargets e g))"
  shows "targetPos (particles (fst (calculateTargets e g)) ! j) = Vector3 0 2 35"
  using calculateTargets_nth [where Q = "\<lambda>k p q. Some (pid p) = focusTargetId (fst (calculateTargets e g))
      \<longrightarrow> targetPos q = Vector3 0 2 35" and e = e and j = j and g = g] assms
  by (simp add: setTarget_FOCUS_target)

lemma focus_ring:
  assumes "mode (state e) = FOCUS" and "j < length (particles e)"
    and "Some (pid (particles e ! j)) \<noteq> focusTargetId (fst (calculateTargets e g))"
  shows "onRing (targetPos (particles (fst (calculateTargets e g)) ! j))"
  using calculateTargets_nth [where Q = "\<lambda>k p q. Some (pid p) \<noteq> focusTargetId (fst (calculateTargets e g))
      \<longrightarrow> onRing (targetPos q)" and e = e and j = j and g = g] assms
  by (simp add: setTarget_FOCUS_other)

lemma enterFocus_simps [simp]:
  "mode (state (enterFocus e)) = FOCUS"
  "particles (enterFocus e) = particles e"
  "focusTargetId (enterFocus e) = focusTargetId e"
  "photoIds (enterFocus e) = photoIds e"
  by (simp_all add: enterFocus_def pointerTo_def photoIds_def)

lemma pinch_frame:
  assumes "mode (state e) \<noteq> FOCUS" and "lastVideoTime e \<noteq> 0"
  shows "processGestures (frameAt 0 [pinchHand]) e g = Returned (calculateTargets (enterFocus e) g)"
proof -
  have a: "available (frameAt 0 [pinchHand])" by (simp add: available_def frameAt_def)
  have "processGestures (frameAt 0 [pinchHand]) e g
     = Returned (commitMode (newMode (mode (state e)) (pinchDist pinchHand) (avgTipDist pinchHand))
         (pointerTo pinchHand (currentTime (frameAt 0 [pinchHand])) e) g)"
    using assms(2) by (intro processGestures_hand [OF a]) (simp_all add: frameAt_def pinchHand_values)
  moreover have "newMode (mode (state e)) (pinchDist pinchHand) (avgTipDist pinchHand) = FOCUS"
    by (simp add: newMode_def pinchHand_values)
  moreover have "mode (state (pointerTo pinchHand 0 e)) \<noteq> FOCUS"
    using assms(1) by (simp add: pointerTo_def)
  ultimately show ?thesis
    by (simp add: commitMode_def enterFocus_def frameAt_def)
qed

lemma pinch_animate:
  assumes "mode (state e) \<noteq> FOCUS" and "lastVideoTime e \<noteq> 0"
  shows "fst (outcome_value (animate (frameAt 0 [pinchHand]) e g))
     = (fst (calculateTargets (enterFocus e) g))\<lparr> particles :=
          map (Particle_update FOCUS (focusTargetId (fst (calculateTargets (enterFocus e) g))))
            (particles (fst (calculateTargets (enterFocus e) g))) \<rparr>"
  by (simp add: animate_value pinch_frame [OF assms] calculateTargets_state)

lemma photoIds_initial: "photoIds initial = []"
  by (simp add: photoIds_def initial_def)

lemma allZero_draw [simp]: "fst (Math_random allZero) = 0"
  by (simp add: Math_random_def allZero_def rnd_zero.rep_eq)

lemma nth_of_map: "map f xs = ys \<Longrightarrow> j < length ys \<Longrightarrow> f (xs ! j) = ys ! j"
  by (metis length_map nth_map)

lemma allHalf_after_new_Particle [simp]:
  "fst (Math_random (snd (new_Particle pos rot scl ty i allHalf))) = 1 / 2"
  by (simp add: new_Particle_def Math_random_def allHalf_def split_def Let_def rnd_half.rep_eq)

text \<open>
  Claim C2. In every reachable state the focus identifier, when it is not null, is the
  identifier of a PHOTO particle of the scene and the mode is FOCUS
  (\<open>reachable_focusInvariant\<close>); \<^verbatim>\<open>calculateTargets\<close> clears it in every other mode
  (\<open>focus_cleared\<close>) and keeps it in FOCUS mode when it is a non-empty string
  (\<open>focus_stable\<close>). The claim that a focus target, once set, is not changed while the
  mode stays FOCUS fails on the empty identifier, which the test
  \<^verbatim>\<open>!this.focusTargetId\<close> takes for an unset one. The theorem runs the code on such a
  scene: it is reachable, its mode is FOCUS and its focus target is the photo with the
  empty identifier; adding a third photo, which calls \<^verbatim>\<open>calculateTargets\<close> with the
  mode still FOCUS, moves the focus to the photo \<open>b\<close>.
\<close>

theorem C2_empty_id_is_chosen_again:
  "reachable emptyIdScene
   \<and> mode (state emptyIdScene) = FOCUS
   \<and> focusTargetId emptyIdScene = Some []
   \<and> photoIds emptyIdScene = [[], ''b'']
   \<and> mode (state (fst (addPhotoToScene ''c'' emptyIdScene allHalf))) = FOCUS
   \<and> focusTargetId (fst (addPhotoToScene ''c'' emptyIdScene allHalf)) = Some ''b''"
proof -
  define e2 where "e2 = fst (addPhotoToScene ''b'' (fst (addPhotoToScene [] initial allZero)) allZero)"
  define e3 where "e3 = fst (calculateTargets (enterFocus e2) allZero)"
  have m: "mode (state e2) \<noteq> FOCUS" "lastVideoTime e2 \<noteq> 0"
    by (simp_all add: e2_def initial_def)
  have ph: "photoIds e2 = [[], ''b'']"
    by (simp add: e2_def photoIds_initial)
  have f: "focusTargetId e2 = None"
    by (simp add: e2_def addPhotoToScene_focus focus_cleared initial_def)
  have s: "emptyIdScene = e3\<lparr> particles :=
      map (Particle_update FOCUS (focusTargetId e3)) (particles e3) \<rparr>"
    unfolding emptyIdScene_def e3_def using pinch_animate [OF m, of allZero] by (simp add: e2_def)
  have r: "reachable emptyIdScene"
    unfolding emptyIdScene_def
    by (intro reachable.r_frame reachable.r_photo reachable.r_initial)
  have fid: "focusTargetId e3 = Some []"
    unfolding e3_def using calculateTargets_focus_pick [of "enterFocus e2" allZero]
    by (simp add: ph f falsy_def)
  have mode3: "mode (state e3) = FOCUS"
    by (simp add: e3_def calculateTargets_state)
  have ph3: "photoIds e3 = [[], ''b'']"
    by (simp add: e3_def calculateTargets_photoIds ph)
  have s1: "mode (state emptyIdScene) = FOCUS" "focusTargetId emptyIdScene = Some []"
    "photoIds emptyIdScene = [[], ''b'']"
    unfolding s by (simp_all add: mode3 fid photoIds_updates ph3)
  define e4 where "e4 = emptyIdScene\<lparr> particles := particles emptyIdScene @
      [fst (new_Particle (Vector3 0 0 0) (Vector3 0 0 0) (Vector3 1 1 1) PHOTO ''c'' allHalf)] \<rparr>"
  have e4: "mode (state e4) = FOCUS" "falsy (focusTargetId e4)" "photoIds e4 = [[], ''b'', ''c'']"
    by (simp_all add: e4_def s1 falsy_def photoIds_append)
  have "focusTargetId (fst (addPhotoToScene ''c'' emptyIdScene allHalf)) = Some ''b''"
    unfolding addPhotoToScene_focus e4_def [symmetric]
    using calculateTargets_focus_pick [OF e4(1) e4(2),
        of "snd (new_Particle (Vector3 0 0 0) (Vector3 0 0 0) (Vector3 1 1 1) PHOTO ''c'' allHalf)"]
    by (simp add: e4(3))
  then show ?thesis using r s1 by simp
qed

section \<open>The FOCUS layout with photos\<close>

lemma selectFocus_set:
  assumes "filter (\<lambda>p. ptype p = PHOTO) ps \<noteq> []" and "cur \<noteq> None \<or> falsy cur"
  shows "fst (selectFocus FOCUS cur ps g) \<noteq> None"
proof (cases "falsy cur")
  case True
  then show ?thesis using assms(1) by (simp add: selectFocus_pick)
next
  case False
  then have "cur \<noteq> None" by (cases cur) (simp_all add: falsy_def)
  with False show ?thesis by (simp add: selectFocus_keep)
qed

lemma focus_layout_unique:
  assumes "mode (state e) = FOCUS" and "focusValid e" and "photoIds e \<noteq> []"
    and "distinct (map pid (particles e))"
  shows "\<exists>j < length (particles e).
           ptype (particles e ! j) = PHOTO
         \<and> focusTargetId (fst (calculateTargets e g)) = Some (pid (particles e ! j))
         \<and> targetPos (particles (fst (calculateTargets e g)) ! j) = Vector3 0 2 35
         \<and> (\<forall>k < length (particles e). k \<noteq> j \<longrightarrow>
               onRing (targetPos (particles (fst (calculateTargets e g)) ! k)))"
proof -
  have "falsy (focusTargetId e) \<or> focusTargetId e \<noteq> None"
    by (cases "focusTargetId e") (simp_all add: falsy_def)
  then have "focusTargetId (fst (calculateTargets e g)) \<noteq> None"
    using selectFocus_set [of "particles e" "focusTargetId e" g] assms(1,3)
    by (auto simp add: calculateTargets_focus photoIds_def)
  then obtain i where i: "focusTargetId (fst (calculateTargets e g)) = Some i" by auto
  have "focusInvariant (fst (calculateTargets e g))"
    using assms(2) by (rule calculateTargets_focusInvariant)
  then have "i \<in> set (photoIds e)"
    using i by (simp add: focusInvariant_def calculateTargets_photoIds)
  then obtain p where p: "p \<in> set (particles e)" "ptype p = PHOTO" "pid p = i"
    by (auto simp add: photoIds_set)
  then obtain j where j: "j < length (particles e)" "particles e ! j = p"
    by (auto simp add: in_set_conv_nth)
  have front: "targetPos (particles (fst (calculateTargets e g)) ! j) = Vector3 0 2 35"
    using assms(1) j(1) by (rule focus_front) (simp add: i j(2) p(3))
  have ring: "onRing (targetPos (particles (fst (calculateTargets e g)) ! k))"
    if k: "k < length (particles e)" "k \<noteq> j" for k
  proof -
    have "map pid (particles e) ! k \<noteq> map pid (particles e) ! j"
      using nth_eq_iff_index_eq [OF assms(4), of k j] k j(1) by simp
    then have "pid (particles e ! k) \<noteq> i"
      using k(1) j p(3) by simp
    then show ?thesis
      using assms(1) k(1) by (intro focus_ring) (simp_all add: i)
  qed
  show ?thesis
    using j p front ring i by blast
qed

text \<open>
  Claim C3. When the identifiers of the particles are pairwise distinct, the layout of
  FOCUS mode on a scene with a photo sends exactly one particle, the PHOTO particle
  named by the focus identifier, to \<open>(0, 2, 35)\<close> and every other one to the ring
  (\<open>focus_layout_unique\<close>). The identifiers are random strings that nothing keeps
  distinct, and the comparison \<^verbatim>\<open>p.id === this.focusTargetId\<close> holds for every particle
  that carries the chosen one. The theorem runs the code on a reachable scene in which
  a decoration and the photo have the same identifier: after the frame that enters
  FOCUS mode both particles have the target \<open>(0, 2, 35)\<close>.
\<close>

theorem C3_same_id_two_front_targets:
  "reachable sameIdScene
   \<and> mode (state sameIdScene) = FOCUS
   \<and> map ptype (particles sameIdScene) = [BOX, PHOTO]
   \<and> map pid (particles sameIdScene) = [''a'', ''a'']
   \<and> map targetPos (particles sameIdScene) = [Vector3 0 2 35, Vector3 0 2 35]"
proof -
  define e2 where "e2 = fst (addPhotoToScene ''a''
          (fst (addDecoration (Vector3 0 0 0) BOX ''a'' initial allZero)) allZero)"
  define e3 where "e3 = fst (calculateTargets (enterFocus e2) allZero)"
  have m: "mode (state e2) \<noteq> FOCUS" "lastVideoTime e2 \<noteq> 0"
    by (simp_all add: e2_def initial_def)
  have ids: "map pid (particles e2) = [''a'', ''a'']"
    and tys: "map ptype (particles e2) = [BOX, PHOTO]"
    by (simp_all add: e2_def initial_def)
  have ph: "photoIds e2 = [''a'']"
    by (simp add: e2_def photoIds_initial)
  have f: "focusTargetId e2 = None"
    by (simp add: e2_def addPhotoToScene_focus focus_cleared initial_def)
  have s: "sameIdScene = e3\<lparr> particles :=
      map (Particle_update FOCUS (focusTargetId e3)) (particles e3) \<rparr>"
    unfolding sameIdScene_def e3_def using pinch_animate [OF m, of allZero] by (simp add: e2_def)
  have r: "reachable sameIdScene"
    unfolding sameIdScene_def
    by (intro reachable.r_frame reachable.r_photo reachable.r_decoration reachable.r_initial) simp
  have fid: "focusTargetId e3 = Some ''a''"
    unfolding e3_def using calculateTargets_focus_pick [of "enterFocus e2" allZero]
    by (simp add: ph f falsy_def)
  have len: "length (particles e2) = 2"
    using ids by (metis length_map length_Cons list.size(3) One_nat_def Suc_1)
  have p0: "pid (particles e2 ! 0) = ''a''" and p1: "pid (particles e2 ! 1) = ''a''"
    using nth_of_map [OF ids, of 0] nth_of_map [OF ids, of 1] by simp_all
  have t0: "targetPos (particles e3 ! 0) = Vector3 0 2 35"
    unfolding e3_def using fid
    by (intro focus_front) (simp_all add: len p0 e3_def)
  have t1: "targetPos (particles e3 ! 1) = Vector3 0 2 35"
    unfolding e3_def using fid p1
    by (intro focus_front) (simp_all add: len e3_def)
  have len3: "length (particles e3) = 2"
    by (simp add: e3_def calculateTargets_length len)
  have "map targetPos (particles e3) = [Vector3 0 2 35, Vector3 0 2 35]"
    using len3 t0 t1 by (intro nth_equalityI) (auto simp add: less_Suc_eq numeral_2_eq_2)
  then have "map targetPos (particles sameIdScene) = [Vector3 0 2 35, Vector3 0 2 35]"
    by (simp add: s comp_def update_targetPos)
  moreover have "map pid (particles sameIdScene) = [''a'', ''a'']"
    using ids by (simp add: s comp_def e3_def calculateTargets_pid)
  moreover have "map ptype (particles sameIdScene) = [BOX, PHOTO]"
    using tys by (simp add: s comp_def e3_def calculateTargets_ptype)
  moreover have "mode (state sameIdScene) = FOCUS"
    by (simp add: s e3_def calculateTargets_state)
  ultimately show ?thesis using r by simp
qed

end
